theory Spec2Isabelle
  imports Main "HOL-Library.Log_Nat"
begin

section \<open>train\_min.py: a wrapper around an external amp-model trainer\<close>

text \<open>
  The script validates a pair of audio files, runs an external trainer as a child process
  and copies the converted model into an output directory. The embedding follows
  \<^verbatim>\<open>src/python/train_min.py\<close> function by function. Every function of the script
  becomes a function from the world before the call to a result and the world after it;
  a raised exception is the result \<open>Inl e\<close>, a returned value is \<open>Inr v\<close>.
\<close>

subsection \<open>Exceptions\<close>

text \<open>
  The exceptions the script can end with. The first group is raised by the statements of
  the script itself or by the standard library calls it makes. \<open>ExternalException\<close> is an
  instance of \<^verbatim>\<open>Exception\<close> raised by code outside the script (librosa, the optional
  helper module, the operating system), carrying its \<^verbatim>\<open>str()\<close>;
  \<open>ExternalBaseException\<close> is raised by such code too, and is an instance of
  \<^verbatim>\<open>BaseException\<close> only (\<^verbatim>\<open>SystemExit\<close>, \<^verbatim>\<open>KeyboardInterrupt\<close>); it carries
  its name and the status the interpreter exits with when nothing handles it.
\<close>

type_synonym path = string

datatype py_exception =
    AssertionError string
  | ZeroDivisionError
  | OverflowError
  | KeyError string
  | CalledProcessError int "string list"
  | FileNotFoundError path
  | FileExistsError path
  | IsADirectoryError path
  | SameFileError path
  | ExternalException string
  | ExternalBaseException string int

fun is_Exception :: "py_exception \<Rightarrow> bool" where
  "is_Exception (ExternalBaseException m c) = False"
| "is_Exception e = True"

text \<open>\<^verbatim>\<open>str(e)\<close>, as the f-string of the warning formats the caught exception.\<close>

fun str_exc :: "py_exception \<Rightarrow> string" where
  "str_exc (AssertionError m) = m"
| "str_exc (ExternalException m) = m"
| "str_exc (ExternalBaseException m c) = m"
| "str_exc e = []"

subsection \<open>The world: files, environment, output streams, child processes\<close>

text \<open>
  A path is the string the script passes to the operating system; two different strings
  are two different files (no symbolic links, no normalisation). A file holds bytes.
\<close>

record fsys =
  files :: "path \<rightharpoonup> string"
  dirs :: "path set"

text \<open>
  One entry of the trace of child processes: the argument vector, the working directory
  and the environment the child runs with.
\<close>

record spawn =
  argv :: "string list"
  cwd :: path
  env :: "string \<rightharpoonup> string"

record world =
  fs :: fsys
  environ :: "string \<rightharpoonup> string"
  stdout :: "string list"
  stderr :: "string list"
  spawned :: "spawn list"

type_synonym 'a io = "world \<Rightarrow> (py_exception + 'a) \<times> world"

datatype child_outcome = Exited int fsys | NotStarted py_exception

text \<open>
  What the script does not define: the audio loader, the optional helper module, the
  child processes and the accelerator query. \<open>librosa_load\<close> gives the number of samples
  and the native sample rate of a file. The three helper entries are the import of
  \<^verbatim>\<open>colab_functions\<close> and its two routines; they run inside the wrapper's process
  and may change the world in any way. A child process sees its spawn description and
  the file system, and leaves an exit status and a file system.
\<close>

record externals =
  librosa_load :: "fsys \<Rightarrow> path \<Rightarrow> py_exception + (nat \<times> nat)"
  import_colab_functions :: "world \<Rightarrow> py_exception option \<times> world"
  create_csv_nam_v1_1_1 :: "path \<Rightarrow> world \<Rightarrow> py_exception option \<times> world"
  prep_audio :: "path list \<Rightarrow> string \<Rightarrow> bool \<Rightarrow> bool \<Rightarrow> world \<Rightarrow> py_exception option \<times> world"
  run_child :: "spawn \<Rightarrow> fsys \<Rightarrow> child_outcome"
  cuda_is_available :: bool

subsection \<open>Standard library: paths, strings, printing\<close>

text \<open>
  \<^verbatim>\<open>os.path.join\<close> of posixpath: a component that starts with the separator
  replaces what came before; otherwise it is appended, with a separator unless the
  path so far is empty or already ends with one.
\<close>

fun join_step :: "path \<Rightarrow> string \<Rightarrow> path" where
  "join_step p b =
     (if take 1 b = ''/'' then b
      else if p = [] \<or> last p = CHR ''/'' then p @ b
      else p @ ''/'' @ b)"

fun os_path_join :: "path \<Rightarrow> string list \<Rightarrow> path" where
  "os_path_join a ps = foldl join_step a ps"

text \<open>\<^verbatim>\<open>str\<close> of an integer: its decimal digits, with a minus sign when negative.\<close>

definition digit_char :: "nat \<Rightarrow> char" where
  "digit_char d = ''0123456789'' ! d"

fun str_nat :: "nat \<Rightarrow> string" where
  "str_nat n = (if n < 10 then [digit_char n] else str_nat (n div 10) @ [digit_char (n mod 10)])"

definition str_int :: "int \<Rightarrow> string" where
  "str_int i = (if i < 0 then CHR ''-'' # str_nat (nat (- i)) else str_nat (nat i))"

text \<open>\<^verbatim>\<open>sep.join(xs)\<close>.\<close>

fun str_join :: "string \<Rightarrow> string list \<Rightarrow> string" where
  "str_join sep [] = []"
| "str_join sep [x] = x"
| "str_join sep (x # y # ys) = x @ sep @ str_join sep (y # ys)"

definition print_out :: "string \<Rightarrow> world \<Rightarrow> world" where
  "print_out s w = w\<lparr>stdout := stdout w @ [s]\<rparr>"

definition print_err :: "string \<Rightarrow> world \<Rightarrow> world" where
  "print_err s w = w\<lparr>stderr := stderr w @ [s]\<rparr>"

subsection \<open>Floating point: the quotient and the difference of the durations\<close>

text \<open>
  Python's \<^verbatim>\<open>/\<close> on two integers is the quotient correctly rounded to binary64, and
  the difference of two floats is rounded again. A finite float is modelled by the
  rational it denotes. \<open>round_double\<close> rounds a rational to the nearest binary64 value,
  ties to even: 53 significant bits, with the spacing of the subnormal range below
  \<open>2^-1022\<close>.
\<close>

definition pow2 :: "int \<Rightarrow> rat" where
  "pow2 e = (if 0 \<le> e then 2 ^ nat e else 1 / 2 ^ nat (- e))"

definition round_half_even :: "rat \<Rightarrow> int" where
  "round_half_even x =
     (let f = \<lfloor>x\<rfloor>; r = x - of_int f
      in if r < 1 / 2 then f else if 1 / 2 < r then f + 1 else if even f then f else f + 1)"

definition binade :: "rat \<Rightarrow> int" where
  "binade x =
     (let (p, q) = quotient_of x; d = bitlen p - bitlen q
      in if pow2 d \<le> x then d else d - 1)"

definition round_double :: "rat \<Rightarrow> rat" where
  "round_double x =
     (if x = 0 then 0
      else let u = pow2 (max (binade \<bar>x\<bar>) (- 1022) - 52)
           in sgn x * of_int (round_half_even (\<bar>x\<bar> / u)) * u)"

text \<open>
  \<^verbatim>\<open>n / d\<close> for a sample count and a sample rate: \<^verbatim>\<open>ZeroDivisionError\<close> for a zero
  rate, \<^verbatim>\<open>OverflowError\<close> when the quotient is too large for a float.
\<close>

definition true_div :: "nat \<Rightarrow> nat \<Rightarrow> py_exception + rat" where
  "true_div n d =
     (if d = 0 then Inl ZeroDivisionError
      else let r = round_double (of_nat n / of_nat d)
           in if pow2 1024 \<le> r then Inl OverflowError else Inr r)"

text \<open>
  \<^verbatim>\<open>abs(len(t_aud)/t_sr - len(i_aud)/i_sr)\<close>: the left quotient is evaluated first.
\<close>

definition duration_diff :: "nat \<Rightarrow> nat \<Rightarrow> nat \<Rightarrow> nat \<Rightarrow> py_exception + rat" where
  "duration_diff t_len t_sr i_len i_sr =
     (case true_div t_len t_sr of
        Inl e \<Rightarrow> Inl e
      | Inr a \<Rightarrow>
          (case true_div i_len i_sr of
             Inl e \<Rightarrow> Inl e
           | Inr b \<Rightarrow> Inr \<bar>round_double (a - b)\<bar>))"

subsection \<open>prepare\_data\<close>

text \<open>
  The body of the \<^verbatim>\<open>try\<close>: the import, then the two calls, stopping at the first
  exception.
\<close>

definition prep_helpers :: "externals \<Rightarrow> path \<Rightarrow> path \<Rightarrow> world \<Rightarrow> py_exception option \<times> world" where
  "prep_helpers ext inp out w =
     (case import_colab_functions ext w of
        (Some e, w1) \<Rightarrow> (Some e, w1)
      | (None, w1) \<Rightarrow>
          (case create_csv_nam_v1_1_1 ext (inp @ ''.csv'') w1 of
             (Some e, w2) \<Rightarrow> (Some e, w2)
           | (None, w2) \<Rightarrow> prep_audio ext [inp, out] ''amp'' True False w2))"

definition warn_msg :: "py_exception \<Rightarrow> string" where
  "warn_msg e = ''[warn] prep helpers missing/failed ('' @ str_exc e @ ''); continuing with raw wavs.''"

definition prepare_data :: "externals \<Rightarrow> path \<Rightarrow> string io" where
  "prepare_data ext data_dir w =
     (let inp = os_path_join data_dir [''input.wav''];
          out = os_path_join data_dir [''output.wav'']
      in case librosa_load ext (fs w) inp of
           Inl e \<Rightarrow> (Inl e, w)
         | Inr (i_len, i_sr) \<Rightarrow>
             (case librosa_load ext (fs w) out of
                Inl e \<Rightarrow> (Inl e, w)
              | Inr (t_len, t_sr) \<Rightarrow>
                  (case duration_diff t_len t_sr i_len i_sr of
                     Inl e \<Rightarrow> (Inl e, w)
                   | Inr d \<Rightarrow>
                       if \<not> d < 3 then (Inl (AssertionError ''Input/Target lengths differ too much''), w)
                       else if i_sr \<noteq> t_sr then (Inl (AssertionError ''Sample rates differ''), w)
                       else (case prep_helpers ext inp out w of
                               (None, w1) \<Rightarrow> (Inr ''amp'', w1)
                             | (Some e, w1) \<Rightarrow>
                                 if is_Exception e then (Inr ''amp'', print_err (warn_msg e) w1)
                                 else (Inl e, w1)))))"

subsection \<open>Child processes\<close>

text \<open>
  \<^verbatim>\<open>subprocess.check_call(cmd, cwd=..., env=...)\<close>: the child runs with the given
  environment, or with the wrapper's own when none is given; the call blocks until the
  child exits and raises \<^verbatim>\<open>CalledProcessError\<close> on a non-zero status. Every call is
  appended to the trace. A child changes the file system only: it cannot change the
  environment of its parent.
\<close>

definition check_call :: "externals \<Rightarrow> string list \<Rightarrow> path \<Rightarrow> (string \<rightharpoonup> string) option \<Rightarrow> unit io" where
  "check_call ext cmd dir env_arg w =
     (let sp = \<lparr>argv = cmd, cwd = dir,
                 env = (case env_arg of None \<Rightarrow> environ w | Some e \<Rightarrow> e)\<rparr>;
          w1 = w\<lparr>spawned := spawned w @ [sp]\<rparr>
      in case run_child ext sp (fs w) of
           NotStarted e \<Rightarrow> (Inl e, w1)
         | Exited rc fs' \<Rightarrow>
             if rc \<noteq> 0 then (Inl (CalledProcessError rc cmd), w1\<lparr>fs := fs'\<rparr>)
             else (Inr (), w1\<lparr>fs := fs'\<rparr>))"

subsection \<open>train\<close>

text \<open>The dictionary literal indexed by the model type; a missing key raises \<^verbatim>\<open>KeyError\<close>.\<close>

definition model_cfg :: "string \<rightharpoonup> string" where
  "model_cfg =
     [''Lightest'' \<mapsto> ''LSTM-8'', ''Light'' \<mapsto> ''LSTM-12'',
      ''Standard'' \<mapsto> ''LSTM-16'', ''Heavy'' \<mapsto> ''LSTM-20'']"

definition train_env :: "(string \<rightharpoonup> string) \<Rightarrow> (string \<rightharpoonup> string)" where
  "train_env e = e(''TF_CPP_MIN_LOG_LEVEL'' \<mapsto> ''3'', ''CUBLAS_WORKSPACE_CONFIG'' \<mapsto> '':4096:2'')"

definition train_cmd :: "string \<Rightarrow> string \<Rightarrow> int \<Rightarrow> int \<Rightarrow> string list" where
  "train_cmd cfg file_name sc epochs =
     [''python3'', ''dist_model_recnet.py'', ''-l'', cfg, ''-fn'', file_name,
      ''-sc'', str_int sc, ''-eps'', str_int epochs]"

definition train :: "externals \<Rightarrow> path \<Rightarrow> string \<Rightarrow> string \<Rightarrow> bool \<Rightarrow> int \<Rightarrow> path io" where
  "train ext trainer_dir file_name model_type skip epochs w =
     (case model_cfg model_type of
        None \<Rightarrow> (Inl (KeyError model_type), w)
      | Some cfg \<Rightarrow>
          (let sc = (if skip then 1 else 0);
               env = train_env (environ w);
               cmd = train_cmd cfg file_name sc epochs;
               w1 = print_out (''>> '' @ str_join '' '' cmd) w
           in case check_call ext cmd trainer_dir (Some env) w1 of
                (Inl e, w2) \<Rightarrow> (Inl e, w2)
              | (Inr u, w2) \<Rightarrow>
                  (Inr (os_path_join trainer_dir
                          [''Results'', file_name @ ''_'' @ cfg @ ''-'' @ str_int sc]), w2)))"

text \<open>
  Names for what the training step builds: the trace entry of its child, and the world
  at the moment the child has been started (the command line echoed on the output stream,
  the entry appended to the trace).
\<close>

definition train_sp :: "string \<Rightarrow> path \<Rightarrow> string \<Rightarrow> bool \<Rightarrow> int \<Rightarrow> world \<Rightarrow> spawn" where
  "train_sp cfg t fn sk ep w =
     \<lparr>argv = train_cmd cfg fn (if sk then 1 else 0) ep, cwd = t, env = train_env (environ w)\<rparr>"

definition train_w1 :: "string \<Rightarrow> path \<Rightarrow> string \<Rightarrow> bool \<Rightarrow> int \<Rightarrow> world \<Rightarrow> world" where
  "train_w1 cfg t fn sk ep w =
     w\<lparr>stdout := stdout w @ [''>> '' @ str_join '' '' (train_cmd cfg fn (if sk then 1 else 0) ep)],
       spawned := spawned w @ [train_sp cfg t fn sk ep w]\<rparr>"

subsection \<open>export\_aidax\<close>

text \<open>
  \<^verbatim>\<open>os.makedirs(name, exist_ok=True)\<close> creates the directory and the missing
  directories above it, and accepts a directory that is already there; a file of that
  name is an error. \<^verbatim>\<open>shutil.copyfile(src, dst)\<close> writes the bytes of the source file
  to the destination, replacing what it held; a missing source, a directory on either
  side and a destination that is the source are errors. The directory above the
  destination is not looked at: the export step has just created it.
\<close>

definition dir_prefixes :: "path \<Rightarrow> path list" where
  "dir_prefixes name = [take i name. i \<leftarrow> [1..<length name], name ! i = CHR ''/'']"

definition makedirs :: "path \<Rightarrow> bool \<Rightarrow> unit io" where
  "makedirs name exist_ok w =
     (if name = [] then (Inl (FileNotFoundError name), w)
      else if name \<in> dom (files (fs w)) then (Inl (FileExistsError name), w)
      else if name \<in> dirs (fs w) then
        (if exist_ok then (Inr (), w) else (Inl (FileExistsError name), w))
      else (Inr (), w\<lparr>fs := (fs w)\<lparr>dirs := dirs (fs w) \<union> set (dir_prefixes name) \<union> {name}\<rparr>\<rparr>))"

definition copyfile :: "path \<Rightarrow> path \<Rightarrow> unit io" where
  "copyfile src dst w =
     (case files (fs w) src of
        None \<Rightarrow>
          (if src \<in> dirs (fs w) then (Inl (IsADirectoryError src), w)
           else (Inl (FileNotFoundError src), w))
      | Some content \<Rightarrow>
          if src = dst then (Inl (SameFileError src), w)
          else if dst \<in> dirs (fs w) then (Inl (IsADirectoryError dst), w)
          else (Inr (), w\<lparr>fs := (fs w)\<lparr>files := (files (fs w))(dst \<mapsto> content)\<rparr>\<rparr>))"

text \<open>The check mark of the confirmation message, as its three UTF-8 bytes.\<close>

definition check_mark :: string where
  "check_mark = [char_of (226 :: nat), char_of (156 :: nat), char_of (133 :: nat)]"

definition export_aidax :: "externals \<Rightarrow> path \<Rightarrow> path \<Rightarrow> path \<Rightarrow> unit io" where
  "export_aidax ext trainer_dir model_dir out_dir w =
     (let best = os_path_join model_dir [''model_best.json'']
      in case check_call ext [''python3'', ''modelToKeras.py'', ''-lm'', best] trainer_dir None w of
           (Inl e, w1) \<Rightarrow> (Inl e, w1)
         | (Inr u, w1) \<Rightarrow>
             (let keras_json = os_path_join trainer_dir [''model_keras.json'']
              in case makedirs out_dir True w1 of
                   (Inl e, w2) \<Rightarrow> (Inl e, w2)
                 | (Inr u, w2) \<Rightarrow>
                     (let aidax = os_path_join out_dir [''model-lstm.aidax'']
                      in case copyfile keras_json aidax w2 of
                           (Inl e, w3) \<Rightarrow> (Inl e, w3)
                         | (Inr u, w3) \<Rightarrow>
                             (case copyfile best (os_path_join out_dir [''model-lstm.nam'']) w3 of
                                (Inl e, w4) \<Rightarrow> (Inl e, w4)
                              | (Inr u, w4) \<Rightarrow>
                                  (Inr (), print_out (check_mark @ '' wrote: '' @ aidax) w4)))))"

text \<open>The trace entry of the conversion child of the export step.\<close>

definition convert_sp :: "path \<Rightarrow> path \<Rightarrow> world \<Rightarrow> spawn" where
  "convert_sp t md w =
     \<lparr>argv = [''python3'', ''modelToKeras.py'', ''-lm'', os_path_join md [''model_best.json'']],
      cwd = t, env = environ w\<rparr>"

subsection \<open>main\<close>

text \<open>
  The parsed command line. \<^verbatim>\<open>argparse\<close> has already rejected a model type outside
  its four choices and an epoch count that is not an integer.
\<close>

record args =
  data_dir :: path
  trainer :: path
  model_type :: string
  skip_connection :: bool
  epochs :: int
  out_dir :: path

definition main :: "externals \<Rightarrow> args \<Rightarrow> unit io" where
  "main ext a w =
     (let w0 = print_out (''Using device: '' @ (if cuda_is_available ext then ''cuda'' else ''cpu'')) w
      in case prepare_data ext (data_dir a) w0 of
           (Inl e, w1) \<Rightarrow> (Inl e, w1)
         | (Inr fn, w1) \<Rightarrow>
             (case train ext (trainer a) fn (model_type a) (skip_connection a) (epochs a) w1 of
                (Inl e, w2) \<Rightarrow> (Inl e, w2)
              | (Inr model_dir, w2) \<Rightarrow> export_aidax ext (trainer a) model_dir (out_dir a) w2))"

text \<open>
  The exit status of the process: 0 when \<^verbatim>\<open>main\<close> returns; when an exception leaves
  it unhandled, 1 with a traceback, or the status a \<^verbatim>\<open>SystemExit\<close> carries.
\<close>

fun exit_code :: "py_exception \<Rightarrow> int" where
  "exit_code (ExternalBaseException m c) = c"
| "exit_code e = 1"

definition exit_status :: "(py_exception + unit) \<times> world \<Rightarrow> int" where
  "exit_status r = (case fst r of Inr u \<Rightarrow> 0 | Inl e \<Rightarrow> exit_code e)"

subsection \<open>A stubbed trainer\<close>

text \<open>
  A concrete world for running the model: a data directory with the two audio files, an
  audio loader that reports the given sample counts and rates, a helper module whose
  import and whose \<^verbatim>\<open>prep_audio\<close> end as given, and children that behave like the
  external scripts: the trainer exits with the given status and, on status 0, writes
  \<^verbatim>\<open>model_best.json\<close>; the converter writes \<^verbatim>\<open>model_keras.json\<close>.
\<close>

definition stub_fs :: fsys where
  "stub_fs = \<lparr>files = [''data/input.wav'' \<mapsto> ''in'', ''data/output.wav'' \<mapsto> ''out''],
              dirs = {''data'', ''trainer''}\<rparr>"

definition stub_world :: world where
  "stub_world = \<lparr>fs = stub_fs, environ = [''HOME'' \<mapsto> ''/root''],
                 stdout = [], stderr = [], spawned = []\<rparr>"

definition stub_load :: "nat \<times> nat \<Rightarrow> nat \<times> nat \<Rightarrow> fsys \<Rightarrow> path \<Rightarrow> py_exception + (nat \<times> nat)" where
  "stub_load i t f p =
     (if p = ''data/input.wav'' then Inr i
      else if p = ''data/output.wav'' then Inr t
      else Inl (ExternalException ''no such file''))"

definition stub_child :: "int \<Rightarrow> spawn \<Rightarrow> fsys \<Rightarrow> child_outcome" where
  "stub_child rc sp f =
     (if argv sp ! 1 = ''dist_model_recnet.py'' then
        (if rc = 0
         then Exited 0 (f\<lparr>files := (files f)(''trainer/Results/amp_LSTM-16-0/model_best.json'' \<mapsto> ''best'')\<rparr>)
         else Exited rc f)
      else Exited 0 (f\<lparr>files := (files f)(''trainer/model_keras.json'' \<mapsto> ''keras'')\<rparr>))"

definition stub_ext ::
  "nat \<times> nat \<Rightarrow> nat \<times> nat \<Rightarrow> py_exception option \<Rightarrow> py_exception option \<Rightarrow> int \<Rightarrow> externals" where
  "stub_ext i t imp prep rc =
     \<lparr>librosa_load = stub_load i t,
      import_colab_functions = (\<lambda>w. (imp, w)),
      create_csv_nam_v1_1_1 = (\<lambda>p w. (None, w)),
      prep_audio = (\<lambda>ps fn norm csv w. (prep, w)),
      run_child = stub_child rc,
      cuda_is_available = False\<rparr>"

definition stub_args :: args where
  "stub_args = \<lparr>data_dir = ''data'', trainer = ''trainer'', model_type = ''Standard'',
                skip_connection = False, epochs = 200, out_dir = ''res''\<rparr>"

section \<open>Properties\<close>

subsection \<open>Child processes and the flag\<close>

declare join_step.simps [simp del] os_path_join.simps [simp del] str_nat.simps [simp del]

lemma check_call_spawned:
  "spawned (snd (check_call ext cmd dir ea w)) =
     spawned w @ [\<lparr>argv = cmd, cwd = dir, env = (case ea of None \<Rightarrow> environ w | Some e \<Rightarrow> e)\<rparr>]"
  by (simp add: check_call_def Let_def split: child_outcome.split)

lemma check_call_environ: "environ (snd (check_call ext cmd dir ea w)) = environ w"
  by (simp add: check_call_def Let_def split: child_outcome.split)

lemma str_int_flag: "str_int (if sk then 1 else 0) = (if sk then ''1'' else ''0'')"
  by (simp add: str_int_def str_nat.simps digit_char_def)

subsection \<open>The model-type table\<close>

text \<open>
  C4. The four labels resolve to \<open>LSTM-8\<close>, \<open>LSTM-12\<close>, \<open>LSTM-16\<close> and \<open>LSTM-20\<close>;
  for any other label the lookup has no entry and the training step raises
  \<^verbatim>\<open>KeyError\<close>, leaving the world as it was.
\<close>

theorem model_cfg_table:
  "model_cfg ''Lightest'' = Some ''LSTM-8'' \<and> model_cfg ''Light'' = Some ''LSTM-12'' \<and>
   model_cfg ''Standard'' = Some ''LSTM-16'' \<and> model_cfg ''Heavy'' = Some ''LSTM-20'' \<and>
   (\<forall>m. m \<notin> {''Lightest'', ''Light'', ''Standard'', ''Heavy''} \<longrightarrow>
        model_cfg m = None \<and> train ext t fn m sk ep w = (Inl (KeyError m), w))"
  by (simp add: model_cfg_def train_def)

theorem model_cfg_table_witness:
  "''Huge'' \<notin> {''Lightest'', ''Light'', ''Standard'', ''Heavy''} \<and>
   model_cfg ''Huge'' = None \<and>
   train (stub_ext (10, 5) (5, 5) None None 0) ''trainer'' ''amp'' ''Huge'' False 200 stub_world
     = (Inl (KeyError ''Huge''), stub_world)"
  using model_cfg_table [of "stub_ext (10, 5) (5, 5) None None 0" "''trainer''" "''amp''" False 200 stub_world]
  by simp

subsection \<open>The training command\<close>

text \<open>
  C5. The training step adds to the trace of child processes exactly one entry when the
  model type is in the table, and none otherwise. The entry is the command
  \<^verbatim>\<open>python3 dist_model_recnet.py -l cfg -fn file_name -sc s -eps epochs\<close>, where
  \<open>s\<close> is \<open>1\<close> for a set skip flag and \<open>0\<close> for an unset one, with the trainer directory
  as working directory and the wrapper's environment extended by
  \<^verbatim>\<open>TF_CPP_MIN_LOG_LEVEL=3\<close> and \<^verbatim>\<open>CUBLAS_WORKSPACE_CONFIG=:4096:2\<close>.
\<close>

theorem train_spawned_command:
  "spawned (snd (train ext t fn m sk ep w)) =
     spawned w @
       (case model_cfg m of
          None \<Rightarrow> []
        | Some cfg \<Rightarrow>
            [\<lparr>argv = [''python3'', ''dist_model_recnet.py'', ''-l'', cfg, ''-fn'', fn,
                       ''-sc'', (if sk then ''1'' else ''0''), ''-eps'', str_int ep],
              cwd = t,
              env = (environ w)(''TF_CPP_MIN_LOG_LEVEL'' \<mapsto> ''3'',
                                ''CUBLAS_WORKSPACE_CONFIG'' \<mapsto> '':4096:2'')\<rparr>])"
proof (cases "model_cfg m")
  case None
  then show ?thesis by (simp add: train_def)
next
  case (Some cfg)
  let ?cmd = "train_cmd cfg fn (if sk then 1 else 0) ep"
  let ?w1 = "print_out (''>> '' @ str_join '' '' ?cmd) w"
  have "spawned (snd (train ext t fn m sk ep w)) =
          spawned (snd (check_call ext ?cmd t (Some (train_env (environ w))) ?w1))"
    using Some by (simp add: train_def Let_def print_out_def split: prod.split sum.split)
  also have "\<dots> = spawned w @ [\<lparr>argv = ?cmd, cwd = t, env = train_env (environ w)\<rparr>]"
    by (simp add: check_call_spawned print_out_def)
  finally show ?thesis
    using Some by (simp add: train_cmd_def train_env_def str_int_flag)
qed

theorem train_spawned_command_witness:
  "spawned (snd (train (stub_ext (10, 5) (5, 5) None None 0) ''trainer'' ''amp'' ''Heavy'' True 200 stub_world)) =
     [\<lparr>argv = [''python3'', ''dist_model_recnet.py'', ''-l'', ''LSTM-20'', ''-fn'', ''amp'',
                ''-sc'', ''1'', ''-eps'', ''200''],
       cwd = ''trainer'',
       env = [''HOME'' \<mapsto> ''/root'', ''TF_CPP_MIN_LOG_LEVEL'' \<mapsto> ''3'',
              ''CUBLAS_WORKSPACE_CONFIG'' \<mapsto> '':4096:2'']\<rparr>]"
  using train_spawned_command [of "stub_ext (10, 5) (5, 5) None None 0" "''trainer''" "''amp''" "''Heavy''" True 200 stub_world]
  by (simp add: model_cfg_def stub_world_def str_int_def str_nat.simps digit_char_def)

subsection \<open>The training step, case by case\<close>

lemma str_int_01: "str_int 0 = ''0''" "str_int 1 = ''1''"
  by (simp_all add: str_int_def str_nat.simps digit_char_def)

lemma train_None: "model_cfg m = None \<Longrightarrow> train ext t fn m sk ep w = (Inl (KeyError m), w)"
  by (simp add: train_def)

lemma train_Some:
  assumes "model_cfg m = Some cfg"
  shows "train ext t fn m sk ep w =
     (case run_child ext (train_sp cfg t fn sk ep w) (fs w) of
                NotStarted e \<Rightarrow> (Inl e, train_w1 cfg t fn sk ep w)
              | Exited rc fs' \<Rightarrow>
                  if rc \<noteq> 0 then (Inl (CalledProcessError rc (train_cmd cfg fn (if sk then 1 else 0) ep)), (train_w1 cfg t fn sk ep w)\<lparr>fs := fs'\<rparr>)
                  else (Inr (os_path_join t [''Results'', fn @ ''_'' @ cfg @ ''-'' @ (if sk then ''1'' else ''0'')]),
                        (train_w1 cfg t fn sk ep w)\<lparr>fs := fs'\<rparr>))"
proof (cases "run_child ext (train_sp cfg t fn sk ep w) (fs w)")
  case (Exited rc fs')
  then show ?thesis using assms
    by (cases sk) (simp_all add: train_def check_call_def print_out_def train_sp_def train_w1_def str_int_01 Let_def)
next
  case (NotStarted e)
  then show ?thesis using assms
    by (cases sk) (simp_all add: train_def check_call_def print_out_def train_sp_def train_w1_def str_int_01 Let_def)
qed

lemma train_environ: "environ (snd (train ext t fn m sk ep w)) = environ w"
proof (cases "model_cfg m")
  case None
  then show ?thesis by (simp add: train_None)
next
  case (Some cfg)
  then show ?thesis
    by (simp add: train_Some train_w1_def split: child_outcome.split)
qed

lemma check_call_cases:
  "check_call ext cmd dir ea w =
     (case run_child ext \<lparr>argv = cmd, cwd = dir, env = (case ea of None \<Rightarrow> environ w | Some e \<Rightarrow> e)\<rparr> (fs w) of
        NotStarted e \<Rightarrow> (Inl e, w\<lparr>spawned := spawned w @ [\<lparr>argv = cmd, cwd = dir, env = (case ea of None \<Rightarrow> environ w | Some e \<Rightarrow> e)\<rparr>]\<rparr>)
      | Exited rc fs' \<Rightarrow> (if rc \<noteq> 0 then Inl (CalledProcessError rc cmd) else Inr (),
                         w\<lparr>spawned := spawned w @ [\<lparr>argv = cmd, cwd = dir, env = (case ea of None \<Rightarrow> environ w | Some e \<Rightarrow> e)\<rparr>], fs := fs'\<rparr>))"
  by (simp add: check_call_def Let_def split: child_outcome.split)

lemma makedirs_frame:
  "spawned (snd (makedirs n x w)) = spawned w" "environ (snd (makedirs n x w)) = environ w"
  by (simp_all add: makedirs_def)

lemma copyfile_frame:
  "spawned (snd (copyfile s d w)) = spawned w" "environ (snd (copyfile s d w)) = environ w"
  by (simp_all add: copyfile_def split: option.split)

lemma export_spawned:
  "spawned (snd (export_aidax ext t md od w)) =
     spawned w @ [\<lparr>argv = [''python3'', ''modelToKeras.py'', ''-lm'', os_path_join md [''model_best.json'']],
                    cwd = t, env = environ w\<rparr>]"
proof -
  let ?cmd = "[''python3'', ''modelToKeras.py'', ''-lm'', os_path_join md [''model_best.json'']]"
  obtain r w1 where c: "check_call ext ?cmd t None w = (r, w1)" by (cases "check_call ext ?cmd t None w")
  have s1: "spawned w1 = spawned w @ [\<lparr>argv = ?cmd, cwd = t, env = environ w\<rparr>]"
    using check_call_spawned [of ext ?cmd t None w] c by simp
  show ?thesis
  proof (cases r)
    case (Inl e)
    then show ?thesis using c s1 by (simp add: export_aidax_def Let_def)
  next
    case (Inr u)
    obtain r2 w2 where m: "makedirs od True w1 = (r2, w2)" by (cases "makedirs od True w1")
    have s2: "spawned w2 = spawned w1" using makedirs_frame(1) [of od True w1] m by simp
    obtain r3 w3 where c3: "copyfile (os_path_join t [''model_keras.json'']) (os_path_join od [''model-lstm.aidax'']) w2 = (r3, w3)"
      by (cases "copyfile (os_path_join t [''model_keras.json'']) (os_path_join od [''model-lstm.aidax'']) w2")
    have s3: "spawned w3 = spawned w2" using copyfile_frame(1) [of _ _ w2] c3 by (metis snd_conv)
    obtain r4 w4 where c4: "copyfile (os_path_join md [''model_best.json'']) (os_path_join od [''model-lstm.nam'']) w3 = (r4, w4)"
      by (cases "copyfile (os_path_join md [''model_best.json'']) (os_path_join od [''model-lstm.nam'']) w3")
    have s4: "spawned w4 = spawned w3" using copyfile_frame(1) [of _ _ w3] c4 by (metis snd_conv)
    show ?thesis
      using Inr c m c3 c4 s1 s2 s3 s4
      by (simp add: export_aidax_def Let_def print_out_def split: sum.split)
  qed
qed

lemma stub_train_child:
  "run_child (stub_ext i t imp prep rc) (train_sp cfg dir fn sk ep w) f =
     (if rc = 0
      then Exited 0 (f\<lparr>files := (files f)(''trainer/Results/amp_LSTM-16-0/model_best.json'' \<mapsto> ''best'')\<rparr>)
      else Exited rc f)"
  by (simp add: stub_ext_def stub_child_def train_sp_def train_cmd_def)

subsection \<open>The environment of the children\<close>

text \<open>
  C9. The training step leaves the wrapper's environment as it was: the two forced
  variables are set in the copy handed to the training child only. The conversion child
  of the export step that follows a successful training step runs with that unchanged
  environment, so it sees the two variables exactly when the wrapper's environment had
  them before.
\<close>

theorem train_keeps_environ:
  "environ (snd (train ext t fn m sk ep w)) = environ w \<and>
   (\<forall>md w1. train ext t fn m sk ep w = (Inr md, w1) \<longrightarrow>
      spawned (snd (export_aidax ext t md od w1)) =
        spawned w1 @ [\<lparr>argv = [''python3'', ''modelToKeras.py'', ''-lm'', os_path_join md [''model_best.json'']],
                        cwd = t, env = environ w\<rparr>])"
proof (intro conjI allI impI)
  show "environ (snd (train ext t fn m sk ep w)) = environ w"
    by (rule train_environ)
next
  fix md w1
  assume tr: "train ext t fn m sk ep w = (Inr md, w1)"
  have "environ w1 = environ w"
    using train_environ [of ext t fn m sk ep w] tr by simp
  then show "spawned (snd (export_aidax ext t md od w1)) =
        spawned w1 @ [\<lparr>argv = [''python3'', ''modelToKeras.py'', ''-lm'', os_path_join md [''model_best.json'']],
                        cwd = t, env = environ w\<rparr>]"
    by (simp add: export_spawned)
qed

theorem train_keeps_environ_witness:
  "environ (snd (train (stub_ext (10, 5) (5, 5) None None 0) ''trainer'' ''amp'' ''Standard'' False 200 stub_world))
     = [''HOME'' \<mapsto> ''/root''] \<and>
   (\<exists>md w1. train (stub_ext (10, 5) (5, 5) None None 0) ''trainer'' ''amp'' ''Standard'' False 200 stub_world = (Inr md, w1) \<and>
      map env (spawned (snd (export_aidax (stub_ext (10, 5) (5, 5) None None 0) ''trainer'' md ''res'' w1)))
        = [[''HOME'' \<mapsto> ''/root'', ''TF_CPP_MIN_LOG_LEVEL'' \<mapsto> ''3'', ''CUBLAS_WORKSPACE_CONFIG'' \<mapsto> '':4096:2''],
           [''HOME'' \<mapsto> ''/root'']])"
proof -
  let ?ext = "stub_ext (10, 5) (5, 5) None None 0"
  let ?md = "os_path_join ''trainer'' [''Results'', ''amp_LSTM-16-0'']"
  let ?w1 = "(train_w1 ''LSTM-16'' ''trainer'' ''amp'' False 200 stub_world)
               \<lparr>fs := (fs stub_world)\<lparr>files := (files (fs stub_world))(''trainer/Results/amp_LSTM-16-0/model_best.json'' \<mapsto> ''best'')\<rparr>\<rparr>"
  note inst = train_keeps_environ [of ?ext "''trainer''" "''amp''" "''Standard''" False 200 stub_world "''res''"]
  have m: "model_cfg ''Standard'' = Some ''LSTM-16''"
    by (simp add: model_cfg_def)
  have tr: "train ?ext ''trainer'' ''amp'' ''Standard'' False 200 stub_world = (Inr ?md, ?w1)"
    by (simp add: train_Some [OF m] stub_train_child)
  have e1: "environ (snd (train ?ext ''trainer'' ''amp'' ''Standard'' False 200 stub_world)) = [''HOME'' \<mapsto> ''/root'']"
    using inst [THEN conjunct1] by (simp add: stub_world_def)
  have "spawned (snd (export_aidax ?ext ''trainer'' ?md ''res'' ?w1)) =
          spawned ?w1 @ [\<lparr>argv = [''python3'', ''modelToKeras.py'', ''-lm'', os_path_join ?md [''model_best.json'']],
                          cwd = ''trainer'', env = environ stub_world\<rparr>]"
    using inst [THEN conjunct2] tr by blast
  then have "map env (spawned (snd (export_aidax ?ext ''trainer'' ?md ''res'' ?w1)))
        = [[''HOME'' \<mapsto> ''/root'', ''TF_CPP_MIN_LOG_LEVEL'' \<mapsto> ''3'', ''CUBLAS_WORKSPACE_CONFIG'' \<mapsto> '':4096:2''],
           [''HOME'' \<mapsto> ''/root'']]"
    by (simp add: train_w1_def train_sp_def train_env_def stub_world_def)
  with e1 tr show ?thesis by (intro conjI exI) assumption+
qed

subsection \<open>The path returned by the training step\<close>

lemma os_path_join_literal:
  assumes "t \<noteq> []" and "last t \<noteq> CHR ''/''" and "take 1 x \<noteq> ''/''"
  shows "os_path_join t [''Results'', x] = t @ ''/Results/'' @ x"
  using assms by (simp add: os_path_join.simps join_step.simps)

text \<open>
  C7. The training step returns a path exactly when the model type is in the table and
  the child exits with status 0; the path is then
  \<^verbatim>\<open>os.path.join(trainer_dir, "Results", file_name_cfg-sc)\<close>, whatever file system the
  child left, and nothing is looked up in it. For a trainer directory that is not empty
  and does not end with a separator, and a tag that does not start with one, this is the
  string \<open>trainer/Results/file_name_cfg-sc\<close>.
\<close>

theorem train_returns_composed_path:
  "(train ext t fn m sk ep w = (Inr p, w')) =
     (\<exists>cfg fs'. model_cfg m = Some cfg \<and>
        run_child ext (train_sp cfg t fn sk ep w) (fs w) = Exited 0 fs' \<and>
        p = os_path_join t [''Results'', fn @ ''_'' @ cfg @ ''-'' @ (if sk then ''1'' else ''0'')] \<and>
        w' = (train_w1 cfg t fn sk ep w)\<lparr>fs := fs'\<rparr>) \<and>
   (t \<noteq> [] \<and> last t \<noteq> CHR ''/'' \<and> take 1 fn \<noteq> ''/'' \<longrightarrow>
      os_path_join t [''Results'', fn @ ''_'' @ c @ ''-'' @ s] = t @ ''/Results/'' @ fn @ ''_'' @ c @ ''-'' @ s)"
proof (intro conjI impI)
  show "(train ext t fn m sk ep w = (Inr p, w')) =
     (\<exists>cfg fs'. model_cfg m = Some cfg \<and>
        run_child ext (train_sp cfg t fn sk ep w) (fs w) = Exited 0 fs' \<and>
        p = os_path_join t [''Results'', fn @ ''_'' @ cfg @ ''-'' @ (if sk then ''1'' else ''0'')] \<and>
        w' = (train_w1 cfg t fn sk ep w)\<lparr>fs := fs'\<rparr>)"
  proof (cases "model_cfg m")
    case None
    then show ?thesis by (simp add: train_None)
  next
    case (Some cfg)
    then show ?thesis
      by (cases "run_child ext (train_sp cfg t fn sk ep w) (fs w)") (auto simp: train_Some)
  qed
next
  assume a: "t \<noteq> [] \<and> last t \<noteq> CHR ''/'' \<and> take 1 fn \<noteq> ''/''"
  then have "take 1 (fn @ ''_'' @ c @ ''-'' @ s) \<noteq> ''/''"
    by (cases fn) simp_all
  with a show "os_path_join t [''Results'', fn @ ''_'' @ c @ ''-'' @ s] = t @ ''/Results/'' @ fn @ ''_'' @ c @ ''-'' @ s"
    using os_path_join_literal [of t "fn @ ''_'' @ c @ ''-'' @ s"] by simp
qed

theorem train_returns_composed_path_witness:
  "\<exists>w'. train (stub_ext (10, 5) (5, 5) None None 0) ''trainer'' ''amp'' ''Heavy'' False 200 stub_world
           = (Inr ''trainer/Results/amp_LSTM-20-0'', w') \<and>
        ''trainer/Results/amp_LSTM-20-0'' \<notin> dirs (fs w') \<and>
        files (fs w') ''trainer/Results/amp_LSTM-20-0/model_best.json'' = None"
proof -
  let ?ext = "stub_ext (10, 5) (5, 5) None None 0"
  let ?fs' = "(fs stub_world)\<lparr>files := (files (fs stub_world))(''trainer/Results/amp_LSTM-16-0/model_best.json'' \<mapsto> ''best'')\<rparr>"
  let ?w' = "(train_w1 ''LSTM-20'' ''trainer'' ''amp'' False 200 stub_world)\<lparr>fs := ?fs'\<rparr>"
  note inst = train_returns_composed_path [of ?ext "''trainer''" "''amp''" "''Heavy''" False 200 stub_world
                "''trainer/Results/amp_LSTM-20-0''" ?w' "''LSTM-20''" "''0''"]
  have m: "model_cfg ''Heavy'' = Some ''LSTM-20''"
    by (simp add: model_cfg_def)
  have c: "run_child ?ext (train_sp ''LSTM-20'' ''trainer'' ''amp'' False 200 stub_world) (fs stub_world) = Exited 0 ?fs'"
    by (simp add: stub_train_child)
  have p: "os_path_join ''trainer'' [''Results'', ''amp'' @ ''_'' @ ''LSTM-20'' @ ''-'' @ ''0''] = ''trainer/Results/amp_LSTM-20-0''"
    using inst [THEN conjunct2] by simp
  have "train ?ext ''trainer'' ''amp'' ''Heavy'' False 200 stub_world = (Inr ''trainer/Results/amp_LSTM-20-0'', ?w')"
    using inst [THEN conjunct1] m c p by simp
  moreover have "''trainer/Results/amp_LSTM-20-0'' \<notin> dirs (fs ?w')"
    by (simp add: stub_world_def stub_fs_def)
  moreover have "files (fs ?w') ''trainer/Results/amp_LSTM-20-0/model_best.json'' = None"
    by (simp add: stub_world_def stub_fs_def)
  ultimately show ?thesis by blast
qed

subsection \<open>Evaluating the duration check and the stub\<close>

lemma bitlen_small: "bitlen 1 = 1" "bitlen 2 = 2" "bitlen 9 = 4" "bitlen 10 = 4"
  by code_simp+

lemmas float_defs = true_div_def round_double_def binade_def pow2_def round_half_even_def Let_def

lemma true_div_small: "true_div 5 5 = Inr 1" "true_div 10 5 = Inr 2" "true_div 50 5 = Inr 10"
  by (simp_all add: float_defs bitlen_small)

lemma duration_diff_small:
  "duration_diff 5 5 10 5 = Inr 1" "duration_diff 5 5 50 5 = Inr 9"
  by (simp_all add: duration_diff_def true_div_small round_double_def binade_def pow2_def
        round_half_even_def Let_def bitlen_small)

lemma prepare_data_loaded:
  assumes "librosa_load ext (fs w) (os_path_join d [''input.wav'']) = Inr (i_len, i_sr)"
      and "librosa_load ext (fs w) (os_path_join d [''output.wav'']) = Inr (t_len, t_sr)"
  shows "prepare_data ext d w =
     (case duration_diff t_len t_sr i_len i_sr of
        Inl e \<Rightarrow> (Inl e, w)
      | Inr x \<Rightarrow>
          if \<not> x < 3 then (Inl (AssertionError ''Input/Target lengths differ too much''), w)
          else if i_sr \<noteq> t_sr then (Inl (AssertionError ''Sample rates differ''), w)
          else (case prep_helpers ext (os_path_join d [''input.wav'']) (os_path_join d [''output.wav'']) w of
                  (None, w1) \<Rightarrow> (Inr ''amp'', w1)
                | (Some e, w1) \<Rightarrow>
                    if is_Exception e then (Inr ''amp'', print_err (warn_msg e) w1)
                    else (Inl e, w1)))"
  using assms by (simp add: prepare_data_def Let_def)

lemma stub_paths:
  "os_path_join ''data'' [''input.wav''] = ''data/input.wav''"
  "os_path_join ''data'' [''output.wav''] = ''data/output.wav''"
  by (simp_all add: os_path_join.simps join_step.simps)

lemma stub_loads:
  "librosa_load (stub_ext i t imp prep rc) f (os_path_join ''data'' [''input.wav'']) = Inr i"
  "librosa_load (stub_ext i t imp prep rc) f (os_path_join ''data'' [''output.wav'']) = Inr t"
  by (simp_all add: stub_paths stub_ext_def stub_load_def)

lemma stub_helpers:
  "prep_helpers (stub_ext i t imp prep rc) inp out w =
     (case imp of Some e \<Rightarrow> (Some e, w) | None \<Rightarrow> (prep, w))"
  by (simp add: prep_helpers_def stub_ext_def split: option.split)




lemma stub_prepare_ok:
  "fs v = fs stub_world \<Longrightarrow>
   prepare_data (stub_ext (10, 5) (5, 5) None None rc) (data_dir stub_args) v = (Inr ''amp'', v)"
  by (simp add: stub_args_def prepare_data_loaded [OF stub_loads] duration_diff_small stub_helpers)



subsection \<open>Data preparation rejects a mismatch\<close>



subsection \<open>The order of the two assertions\<close>



subsection \<open>A pair at the boundary\<close>

text \<open>
  The difference that the assertion compares is the rounded one. For 44101 input samples
  and 176401 target samples at 44100 Hz the two durations differ by exactly 3 seconds as
  rational numbers, the difference the script computes is \<open>3 - 2^-51\<close>, and data
  preparation accepts the pair.
\<close>

lemma round_double_boundary:
  "round_double (176401 / 44100) = 1125906289495157 / 281474976710656"
  "round_double (44101 / 44100) = 2251850874905513 / 2251799813685248"
  "round_double (6755399441055743 / 2251799813685248) = 6755399441055743 / 2251799813685248"
  by code_simp+

lemma duration_diff_boundary:
  "duration_diff 176401 44100 44101 44100 = Inr (6755399441055743 / 2251799813685248)"
  by (simp add: duration_diff_def true_div_def Let_def round_double_boundary pow2_def)

lemma boundary_pair_passes:
  "(176401 :: rat) / 44100 - 44101 / 44100 = 3 \<and>
   fst (prepare_data (stub_ext (44101, 44100) (176401, 44100) None None 0) ''data'' stub_world) = Inr ''amp''"
  by (simp add: prepare_data_loaded [OF stub_loads] duration_diff_boundary stub_helpers)

subsection \<open>Data preparation accepts a matching pair\<close>

text \<open>
  C3, as the claim states it, fails: with equal rates and a difference below 3.0, a helper
  that ends with an exception outside \<^verbatim>\<open>Exception\<close> (here \<^verbatim>\<open>SystemExit\<close> raised
  by \<^verbatim>\<open>prep_audio\<close>) is not caught by \<^verbatim>\<open>except Exception\<close>, and data preparation
  does not return the tag.
\<close>

theorem prepare_data_helper_exit_counterexample:
  "librosa_load (stub_ext (10, 5) (5, 5) None (Some (ExternalBaseException ''SystemExit'' 1)) 0) (fs stub_world)
      (os_path_join ''data'' [''input.wav'']) = Inr (10, 5) \<and>
   librosa_load (stub_ext (10, 5) (5, 5) None (Some (ExternalBaseException ''SystemExit'' 1)) 0) (fs stub_world)
      (os_path_join ''data'' [''output.wav'']) = Inr (5, 5) \<and>
   duration_diff 5 5 10 5 = Inr 1 \<and>
   fst (prepare_data (stub_ext (10, 5) (5, 5) None (Some (ExternalBaseException ''SystemExit'' 1)) 0) ''data'' stub_world)
     = Inl (ExternalBaseException ''SystemExit'' 1)"
  by (simp add: stub_loads duration_diff_small prepare_data_loaded [OF stub_loads] stub_helpers)

text \<open>
  C3, amended. When both files load with equal sample rates and the computed duration
  difference is below 3.0, data preparation returns the tag \<open>amp\<close>, whether the helper
  succeeds, is absent, or fails with an exception that is an instance of
  \<^verbatim>\<open>Exception\<close>.
\<close>

theorem prepare_data_accepts_match:
  assumes "librosa_load ext (fs w) (os_path_join d [''input.wav'']) = Inr (i_len, sr)"
      and "librosa_load ext (fs w) (os_path_join d [''output.wav'']) = Inr (t_len, sr)"
      and "duration_diff t_len sr i_len sr = Inr x" and "x < 3"
      and "\<forall>e. fst (prep_helpers ext (os_path_join d [''input.wav'']) (os_path_join d [''output.wav'']) w) = Some e
               \<longrightarrow> is_Exception e"
  shows "fst (prepare_data ext d w) = Inr ''amp''"
proof -
  obtain r w1 where h: "prep_helpers ext (os_path_join d [''input.wav'']) (os_path_join d [''output.wav'']) w = (r, w1)"
    by (cases "prep_helpers ext (os_path_join d [''input.wav'']) (os_path_join d [''output.wav'']) w")
  show ?thesis
  proof (cases r)
    case None
    then show ?thesis using h assms(3,4) by (simp add: prepare_data_loaded [OF assms(1,2)])
  next
    case (Some e)
    then have "is_Exception e" using assms(5) h by simp
    then show ?thesis using Some h assms(3,4) by (simp add: prepare_data_loaded [OF assms(1,2)])
  qed
qed

theorem prepare_data_accepts_match_witness:
  "duration_diff 5 5 10 5 = Inr 1 \<and> (1::rat) < 3 \<and>
   fst (prep_helpers (stub_ext (10, 5) (5, 5) (Some (ExternalException ''No module named colab_functions'')) None 0)
          (os_path_join ''data'' [''input.wav'']) (os_path_join ''data'' [''output.wav'']) stub_world)
     = Some (ExternalException ''No module named colab_functions'') \<and>
   is_Exception (ExternalException ''No module named colab_functions'') \<and>
   fst (prepare_data (stub_ext (10, 5) (5, 5) (Some (ExternalException ''No module named colab_functions'')) None 0)
          ''data'' stub_world) = Inr ''amp''"
  using prepare_data_accepts_match
          [of "stub_ext (10, 5) (5, 5) (Some (ExternalException ''No module named colab_functions'')) None 0"
              stub_world "''data''" 10 5 5 1]
  by (simp add: stub_loads duration_diff_small stub_helpers)

subsection \<open>A failing helper is a warning\<close>




subsection \<open>A failing training child ends the run\<close>

text \<open>
  C6. When data preparation has succeeded and the training child exits with a non-zero
  status, the training step raises \<^verbatim>\<open>CalledProcessError\<close>, the run ends with that
  exception and a non-zero status, the trace holds the training child and no other, and
  the file system is the one the training child left: no conversion child, no copy.
\<close>

theorem training_failure_aborts:
  assumes "prepare_data ext (data_dir a)
             (print_out (''Using device: '' @ (if cuda_is_available ext then ''cuda'' else ''cpu'')) w) = (Inr fn, w1)"
      and "model_cfg (model_type a) = Some cfg"
      and "run_child ext (train_sp cfg (trainer a) fn (skip_connection a) (epochs a) w1) (fs w1) = Exited rc fs'"
      and "rc \<noteq> 0"
  shows "\<exists>e w2. train ext (trainer a) fn (model_type a) (skip_connection a) (epochs a) w1 = (Inl e, w2) \<and>
           e = CalledProcessError rc (train_cmd cfg fn (if skip_connection a then 1 else 0) (epochs a)) \<and>
           main ext a w = (Inl e, w2) \<and>
           spawned w2 = spawned w1 @ [train_sp cfg (trainer a) fn (skip_connection a) (epochs a) w1] \<and>
           fs w2 = fs' \<and>
           exit_status (main ext a w) \<noteq> 0"
proof -
  let ?e = "CalledProcessError rc (train_cmd cfg fn (if skip_connection a then 1 else 0) (epochs a))"
  let ?w2 = "(train_w1 cfg (trainer a) fn (skip_connection a) (epochs a) w1)\<lparr>fs := fs'\<rparr>"
  have tr: "train ext (trainer a) fn (model_type a) (skip_connection a) (epochs a) w1 = (Inl ?e, ?w2)"
    using assms(2-4) by (simp add: train_Some)
  have mn: "main ext a w = (Inl ?e, ?w2)"
    using assms(1) tr by (simp add: main_def Let_def)
  have "spawned ?w2 = spawned w1 @ [train_sp cfg (trainer a) fn (skip_connection a) (epochs a) w1]"
    by (simp add: train_w1_def)
  moreover have "fs ?w2 = fs'" by simp
  moreover have "exit_status (main ext a w) \<noteq> 0"
    by (simp add: mn exit_status_def)
  ultimately show ?thesis using tr mn by blast
qed

theorem training_failure_aborts_witness:
  "\<exists>e w2. main (stub_ext (10, 5) (5, 5) None None 1) stub_args stub_world = (Inl e, w2) \<and>
      e = CalledProcessError 1 [''python3'', ''dist_model_recnet.py'', ''-l'', ''LSTM-16'', ''-fn'', ''amp'',
                                 ''-sc'', ''0'', ''-eps'', ''200''] \<and>
      map argv (spawned w2) = [[''python3'', ''dist_model_recnet.py'', ''-l'', ''LSTM-16'', ''-fn'', ''amp'',
                                 ''-sc'', ''0'', ''-eps'', ''200'']] \<and>
      fs w2 = stub_fs \<and>
      exit_status (main (stub_ext (10, 5) (5, 5) None None 1) stub_args stub_world) \<noteq> 0"
proof -
  let ?ext = "stub_ext (10, 5) (5, 5) None None 1"
  let ?w0 = "print_out (''Using device: '' @ (if cuda_is_available ?ext then ''cuda'' else ''cpu'')) stub_world"
  have prep: "prepare_data ?ext (data_dir stub_args) ?w0 = (Inr ''amp'', ?w0)"
    by (simp add: stub_prepare_ok print_out_def)
  have m: "model_cfg (model_type stub_args) = Some ''LSTM-16''"
    by (simp add: model_cfg_def stub_args_def)
  have c: "run_child ?ext (train_sp ''LSTM-16'' (trainer stub_args) ''amp'' (skip_connection stub_args) (epochs stub_args) ?w0) (fs ?w0)
             = Exited 1 stub_fs"
    by (simp add: stub_train_child print_out_def stub_world_def)
  have cmd: "train_cmd ''LSTM-16'' ''amp'' (if skip_connection stub_args then 1 else 0) (epochs stub_args) =
     [''python3'', ''dist_model_recnet.py'', ''-l'', ''LSTM-16'', ''-fn'', ''amp'', ''-sc'', ''0'', ''-eps'', ''200'']"
    by (simp add: train_cmd_def stub_args_def str_int_def str_nat.simps digit_char_def)
  have sp: "spawned ?w0 = []" by (simp add: print_out_def stub_world_def)
  show ?thesis
    using training_failure_aborts [OF prep m c] cmd sp
    by (auto simp: train_sp_def)
qed

subsection \<open>The export step\<close>

lemma last_join_step: "b \<noteq> [] \<Longrightarrow> last (join_step p b) = last b"
  by (simp add: join_step.simps)

lemma last_os_path_join: "b \<noteq> [] \<Longrightarrow> last (os_path_join a [b]) = last b"
  by (simp add: os_path_join.simps last_join_step)

lemma export_paths_distinct:
  "os_path_join md [''model_best.json''] \<noteq> os_path_join od [''model-lstm.aidax'']"
  "os_path_join t [''model_keras.json''] \<noteq> os_path_join od [''model-lstm.aidax'']"
  "os_path_join md [''model_best.json''] \<noteq> os_path_join od [''model-lstm.nam'']"
  "os_path_join od [''model-lstm.aidax''] \<noteq> os_path_join od [''model-lstm.nam'']"
proof -
  have a: "last (os_path_join md [''model_best.json'']) = CHR ''n''"
    and b: "last (os_path_join od [''model-lstm.aidax'']) = CHR ''x''"
    and c: "last (os_path_join t [''model_keras.json'']) = CHR ''n''"
    and d: "last (os_path_join od [''model-lstm.nam'']) = CHR ''m''"
    by (simp_all add: last_os_path_join)
  show "os_path_join md [''model_best.json''] \<noteq> os_path_join od [''model-lstm.aidax'']"
    using a b by auto
  show "os_path_join t [''model_keras.json''] \<noteq> os_path_join od [''model-lstm.aidax'']"
    using c b by auto
  show "os_path_join md [''model_best.json''] \<noteq> os_path_join od [''model-lstm.nam'']"
    using a d by auto
  show "os_path_join od [''model-lstm.aidax''] \<noteq> os_path_join od [''model-lstm.nam'']"
    using b d by auto
qed

lemma makedirs_success:
  assumes "makedirs n True w = (Inr u, w')"
  shows "files (fs w') = files (fs w) \<and> n \<in> dirs (fs w') \<and> dirs (fs w) \<subseteq> dirs (fs w') \<and> n \<notin> dom (files (fs w))"
  using assms by (auto simp: makedirs_def split: if_splits)

lemma makedirs_existing:
  "n \<noteq> [] \<Longrightarrow> n \<notin> dom (files (fs w)) \<Longrightarrow> n \<in> dirs (fs w) \<Longrightarrow> makedirs n True w = (Inr (), w)"
  by (simp add: makedirs_def)

lemma copyfile_success:
  assumes "copyfile src dst w = (Inr u, w')"
  shows "\<exists>c. files (fs w) src = Some c \<and> files (fs w') = (files (fs w))(dst \<mapsto> c) \<and> dirs (fs w') = dirs (fs w)"
  using assms by (auto simp: copyfile_def split: option.splits if_splits)

lemma export_success:
  assumes "export_aidax ext t md od w = (Inr u, w')"
  shows "\<exists>fs1 k b.
           run_child ext (convert_sp t md w) (fs w) = Exited 0 fs1 \<and>
           files fs1 (os_path_join t [''model_keras.json'']) = Some k \<and>
           files fs1 (os_path_join md [''model_best.json'']) = Some b \<and>
           files (fs w') = (files fs1)(os_path_join od [''model-lstm.aidax''] \<mapsto> k,
                                       os_path_join od [''model-lstm.nam''] \<mapsto> b) \<and>
           od \<in> dirs (fs w') \<and> dirs fs1 \<subseteq> dirs (fs w')"
proof -
  let ?best = "os_path_join md [''model_best.json'']"
  let ?keras = "os_path_join t [''model_keras.json'']"
  let ?aidax = "os_path_join od [''model-lstm.aidax'']"
  let ?nam = "os_path_join od [''model-lstm.nam'']"
  let ?cmd = "[''python3'', ''modelToKeras.py'', ''-lm'', ?best]"
  obtain r1 w1 where c: "check_call ext ?cmd t None w = (r1, w1)"
    by (cases "check_call ext ?cmd t None w")
  obtain r2 w2 where m: "makedirs od True w1 = (r2, w2)" by (cases "makedirs od True w1")
  obtain r3 w3 where c3: "copyfile ?keras ?aidax w2 = (r3, w3)" by (cases "copyfile ?keras ?aidax w2")
  obtain r4 w4 where c4: "copyfile ?best ?nam w3 = (r4, w4)" by (cases "copyfile ?best ?nam w3")
  have all: "r1 = Inr () \<and> r2 = Inr () \<and> r3 = Inr () \<and> r4 = Inr () \<and> fs w' = fs w4"
    using assms c m c3 c4
    by (auto simp: export_aidax_def Let_def print_out_def split: sum.splits)
  obtain fs1 where run: "run_child ext (convert_sp t md w) (fs w) = Exited 0 fs1" and f1: "fs w1 = fs1"
    using c all
    by (auto simp: check_call_cases convert_sp_def split: child_outcome.splits if_splits)
  have mk: "files (fs w2) = files fs1 \<and> od \<in> dirs (fs w2) \<and> dirs fs1 \<subseteq> dirs (fs w2)"
    using makedirs_success [of od w1 "()" w2] m all f1 by simp
  obtain k where k: "files (fs w2) ?keras = Some k"
      and f3: "files (fs w3) = (files (fs w2))(?aidax \<mapsto> k)" and d3: "dirs (fs w3) = dirs (fs w2)"
    using copyfile_success [of ?keras ?aidax w2 "()" w3] c3 all by auto
  obtain b where b: "files (fs w3) ?best = Some b"
      and f4: "files (fs w4) = (files (fs w3))(?nam \<mapsto> b)" and d4: "dirs (fs w4) = dirs (fs w3)"
    using copyfile_success [of ?best ?nam w3 "()" w4] c4 all by auto
  have b1: "files fs1 ?best = Some b"
    using b f3 mk export_paths_distinct(1) [of md od] by simp
  have k1: "files fs1 ?keras = Some k"
    using k mk by simp
  have "files (fs w') = (files fs1)(?aidax \<mapsto> k, ?nam \<mapsto> b)"
    using all f4 f3 mk by simp
  moreover have "od \<in> dirs (fs w') \<and> dirs fs1 \<subseteq> dirs (fs w')"
    using all d4 d3 mk by simp
  ultimately show ?thesis using run k1 b1 by blast
qed

lemma prepare_data_tag:
  assumes "prepare_data ext d w = (Inr fn, w1)"
  shows "fn = ''amp''"
proof (cases "librosa_load ext (fs w) (os_path_join d [''input.wav''])")
  case (Inl e)
  then show ?thesis using assms by (simp add: prepare_data_def Let_def)
next
  case i: (Inr il)
  obtain i_len i_sr where il: "il = (i_len, i_sr)" by (cases il)
  show ?thesis
  proof (cases "librosa_load ext (fs w) (os_path_join d [''output.wav''])")
    case (Inl e)
    then show ?thesis using assms i il by (simp add: prepare_data_def Let_def)
  next
    case t: (Inr tl)
    obtain t_len t_sr where tl: "tl = (t_len, t_sr)" by (cases tl)
    have l1: "librosa_load ext (fs w) (os_path_join d [''input.wav'']) = Inr (i_len, i_sr)"
      and l2: "librosa_load ext (fs w) (os_path_join d [''output.wav'']) = Inr (t_len, t_sr)"
      using i il t tl by simp_all
    show ?thesis
      using assms
      by (auto simp: prepare_data_loaded [OF l1 l2] split: sum.splits if_splits prod.splits option.splits)
  qed
qed

lemma train_success:
  assumes "train ext t fn m sk ep w = (Inr md, w2)"
  shows "\<exists>cfg. model_cfg m = Some cfg \<and>
           md = os_path_join t [''Results'', fn @ ''_'' @ cfg @ ''-'' @ (if sk then ''1'' else ''0'')]"
proof (cases "model_cfg m")
  case None
  then show ?thesis using assms by (simp add: train_None)
next
  case (Some cfg)
  then show ?thesis using assms
    by (cases "run_child ext (train_sp cfg t fn sk ep w) (fs w)") (auto simp: train_Some split: if_splits)
qed

lemma main_success:
  assumes "main ext a w = (Inr u, w')"
  shows "\<exists>cfg w2. model_cfg (model_type a) = Some cfg \<and>
           export_aidax ext (trainer a)
             (os_path_join (trainer a)
                [''Results'', ''amp'' @ ''_'' @ cfg @ ''-'' @ (if skip_connection a then ''1'' else ''0'')])
             (out_dir a) w2 = (Inr u, w')"
proof -
  let ?w0 = "print_out (''Using device: '' @ (if cuda_is_available ext then ''cuda'' else ''cpu'')) w"
  obtain r1 w1 where p: "prepare_data ext (data_dir a) ?w0 = (r1, w1)"
    by (cases "prepare_data ext (data_dir a) ?w0")
  obtain fn where r1: "r1 = Inr fn"
    using assms p by (cases r1) (simp_all add: main_def Let_def)
  have fn: "fn = ''amp''" using p r1 prepare_data_tag by blast
  obtain r2 w2 where tr: "train ext (trainer a) ''amp'' (model_type a) (skip_connection a) (epochs a) w1 = (r2, w2)"
    by (cases "train ext (trainer a) ''amp'' (model_type a) (skip_connection a) (epochs a) w1")
  obtain md where r2: "r2 = Inr md"
    using assms p r1 fn tr by (cases r2) (simp_all add: main_def Let_def)
  have ex: "export_aidax ext (trainer a) md (out_dir a) w2 = (Inr u, w')"
    using assms p r1 fn tr r2 by (simp add: main_def Let_def)
  obtain cfg where "model_cfg (model_type a) = Some cfg"
    and "md = os_path_join (trainer a)
                [''Results'', ''amp'' @ ''_'' @ cfg @ ''-'' @ (if skip_connection a then ''1'' else ''0'')]"
    using train_success tr r2 by blast
  then show ?thesis using ex by blast
qed

lemma stub_convert_child:
  "run_child (stub_ext i t imp prep rc) (convert_sp dir md w) f =
     Exited 0 (f\<lparr>files := (files f)(''trainer/model_keras.json'' \<mapsto> ''keras'')\<rparr>)"
  by (simp add: stub_ext_def stub_child_def convert_sp_def)

lemma stub_main_ok:
  "main (stub_ext (10, 5) (5, 5) None None 0) stub_args stub_world =
     (Inr (),
      stub_world
        \<lparr>stdout := [''Using device: cpu'',
                     ''>> python3 dist_model_recnet.py -l LSTM-16 -fn amp -sc 0 -eps 200'',
                     check_mark @ '' wrote: res/model-lstm.aidax''],
         spawned := [train_sp ''LSTM-16'' ''trainer'' ''amp'' False 200 stub_world,
                     convert_sp ''trainer'' ''trainer/Results/amp_LSTM-16-0'' stub_world],
         fs := \<lparr>files = (files stub_fs)
                   (''trainer/Results/amp_LSTM-16-0/model_best.json'' \<mapsto> ''best'',
                    ''trainer/model_keras.json'' \<mapsto> ''keras'',
                    ''res/model-lstm.aidax'' \<mapsto> ''keras'',
                    ''res/model-lstm.nam'' \<mapsto> ''best''),
                 dirs = {''data'', ''trainer'', ''res''}\<rparr>\<rparr>)"
proof -
  let ?ext = "stub_ext (10, 5) (5, 5) None None 0"
  let ?w0 = "print_out (''Using device: '' @ (if cuda_is_available ?ext then ''cuda'' else ''cpu'')) stub_world"
  have p: "prepare_data ?ext (data_dir stub_args) ?w0 = (Inr ''amp'', ?w0)"
    by (simp add: stub_prepare_ok print_out_def)
  have m: "model_cfg ''Standard'' = Some ''LSTM-16''" by (simp add: model_cfg_def)
  let ?w2 = "(train_w1 ''LSTM-16'' ''trainer'' ''amp'' False 200 ?w0)
               \<lparr>fs := (fs ?w0)\<lparr>files := (files (fs ?w0))(''trainer/Results/amp_LSTM-16-0/model_best.json'' \<mapsto> ''best'')\<rparr>\<rparr>"
  have t: "train ?ext ''trainer'' ''amp'' ''Standard'' False 200 ?w0 = (Inr ''trainer/Results/amp_LSTM-16-0'', ?w2)"
    by (simp add: train_Some [OF m] stub_train_child os_path_join.simps join_step.simps)
  have e: "export_aidax ?ext ''trainer'' ''trainer/Results/amp_LSTM-16-0'' ''res'' ?w2 =
     (Inr (),
      stub_world
        \<lparr>stdout := [''Using device: cpu'',
                     ''>> python3 dist_model_recnet.py -l LSTM-16 -fn amp -sc 0 -eps 200'',
                     check_mark @ '' wrote: res/model-lstm.aidax''],
         spawned := [train_sp ''LSTM-16'' ''trainer'' ''amp'' False 200 stub_world,
                     convert_sp ''trainer'' ''trainer/Results/amp_LSTM-16-0'' stub_world],
         fs := \<lparr>files = (files stub_fs)
                   (''trainer/Results/amp_LSTM-16-0/model_best.json'' \<mapsto> ''best'',
                    ''trainer/model_keras.json'' \<mapsto> ''keras'',
                    ''res/model-lstm.aidax'' \<mapsto> ''keras'',
                    ''res/model-lstm.nam'' \<mapsto> ''best''),
                 dirs = {''data'', ''trainer'', ''res''}\<rparr>\<rparr>)"
    apply (simp add: export_aidax_def check_call_cases Let_def)
    apply (simp add: stub_convert_child [unfolded convert_sp_def] os_path_join.simps join_step.simps)
    apply (simp add: makedirs_def copyfile_def dir_prefixes_def print_out_def train_w1_def train_sp_def
             convert_sp_def train_cmd_def train_env_def stub_world_def stub_fs_def stub_ext_def stub_child_def Let_def insert_commute
             os_path_join.simps join_step.simps str_int_def str_nat.simps digit_char_def)
    done
  show ?thesis
    using p t e by (simp add: main_def Let_def stub_args_def)
qed

text \<open>
  C1. In every run that ends successfully, the model type is in the table, the conversion
  child has been run on \<^verbatim>\<open>model_best.json\<close> of the model directory
  \<open>trainer/Results/amp_cfg-sc\<close> and has exited with status 0, and the file system at the
  end is the one the conversion child left with exactly two files written: the bytes of
  \<^verbatim>\<open>model_keras.json\<close> of the trainer directory under \<^verbatim>\<open>model-lstm.aidax\<close>, and
  the bytes of that \<^verbatim>\<open>model_best.json\<close> under \<^verbatim>\<open>model-lstm.nam\<close>, two different
  paths of the output directory, which is a directory at the end. Creating the output
  directory succeeds and changes nothing when it is already there.
\<close>

theorem successful_run_exports_two_files:
  "(main ext a w = (Inr u, w') \<longrightarrow>
      (\<exists>cfg w2 fs1 k b.
         model_cfg (model_type a) = Some cfg \<and>
         run_child ext
           (convert_sp (trainer a)
              (os_path_join (trainer a)
                 [''Results'', ''amp'' @ ''_'' @ cfg @ ''-'' @ (if skip_connection a then ''1'' else ''0'')]) w2)
           (fs w2) = Exited 0 fs1 \<and>
         files fs1 (os_path_join (trainer a) [''model_keras.json'']) = Some k \<and>
         files fs1
           (os_path_join
              (os_path_join (trainer a)
                 [''Results'', ''amp'' @ ''_'' @ cfg @ ''-'' @ (if skip_connection a then ''1'' else ''0'')])
              [''model_best.json'']) = Some b \<and>
         files (fs w') =
           (files fs1)(os_path_join (out_dir a) [''model-lstm.aidax''] \<mapsto> k,
                       os_path_join (out_dir a) [''model-lstm.nam''] \<mapsto> b) \<and>
         os_path_join (out_dir a) [''model-lstm.aidax''] \<noteq> os_path_join (out_dir a) [''model-lstm.nam''] \<and>
         out_dir a \<in> dirs (fs w'))) \<and>
   (\<forall>n (v::world). n \<noteq> [] \<and> n \<notin> dom (files (fs v)) \<and> n \<in> dirs (fs v) \<longrightarrow>
      makedirs n True v = (Inr (), v))"
proof (intro conjI impI allI)
  assume ok: "main ext a w = (Inr u, w')"
  let ?md = "\<lambda>cfg. os_path_join (trainer a)
                 [''Results'', ''amp'' @ ''_'' @ cfg @ ''-'' @ (if skip_connection a then ''1'' else ''0'')]"
  obtain cfg w2 where cfg: "model_cfg (model_type a) = Some cfg"
    and ex: "export_aidax ext (trainer a) (?md cfg) (out_dir a) w2 = (Inr u, w')"
    using main_success [OF ok] by blast
  obtain fs1 k b where
    "run_child ext (convert_sp (trainer a) (?md cfg) w2) (fs w2) = Exited 0 fs1"
    "files fs1 (os_path_join (trainer a) [''model_keras.json'']) = Some k"
    "files fs1 (os_path_join (?md cfg) [''model_best.json'']) = Some b"
    "files (fs w') = (files fs1)(os_path_join (out_dir a) [''model-lstm.aidax''] \<mapsto> k,
                                 os_path_join (out_dir a) [''model-lstm.nam''] \<mapsto> b)"
    "out_dir a \<in> dirs (fs w')"
    using export_success [OF ex] by blast
  then show "\<exists>cfg w2 fs1 k b.
         model_cfg (model_type a) = Some cfg \<and>
         run_child ext (convert_sp (trainer a) (?md cfg) w2) (fs w2) = Exited 0 fs1 \<and>
         files fs1 (os_path_join (trainer a) [''model_keras.json'']) = Some k \<and>
         files fs1 (os_path_join (?md cfg) [''model_best.json'']) = Some b \<and>
         files (fs w') =
           (files fs1)(os_path_join (out_dir a) [''model-lstm.aidax''] \<mapsto> k,
                       os_path_join (out_dir a) [''model-lstm.nam''] \<mapsto> b) \<and>
         os_path_join (out_dir a) [''model-lstm.aidax''] \<noteq> os_path_join (out_dir a) [''model-lstm.nam''] \<and>
         out_dir a \<in> dirs (fs w')"
    using cfg export_paths_distinct(4) [of "out_dir a"] by blast
next
  fix n :: path and v :: world
  assume "n \<noteq> [] \<and> n \<notin> dom (files (fs v)) \<and> n \<in> dirs (fs v)"
  then show "makedirs n True v = (Inr (), v)"
    by (simp add: makedirs_existing)
qed

theorem successful_run_exports_two_files_witness:
  "\<exists>w'. main (stub_ext (10, 5) (5, 5) None None 0) stub_args stub_world = (Inr (), w') \<and>
        files (fs w') ''res/model-lstm.aidax'' = Some ''keras'' \<and>
        files (fs w') ''res/model-lstm.nam'' = Some ''best'' \<and>
        files (fs w') ''trainer/Results/amp_LSTM-16-0/model_best.json'' = Some ''best'' \<and>
        out_dir stub_args \<in> dirs (fs w') \<and>
        makedirs ''res'' True w' = (Inr (), w')"
proof -
  let ?ext = "stub_ext (10, 5) (5, 5) None None 0"
  let ?w' = "snd (main ?ext stub_args stub_world)"
  note inst = successful_run_exports_two_files [of ?ext stub_args stub_world "()" ?w']
  have ok: "main ?ext stub_args stub_world = (Inr (), ?w')"
    by (simp add: stub_main_ok)
  have d: "out_dir stub_args \<in> dirs (fs ?w')"
    using inst [THEN conjunct1] ok by blast
  have f: "''res'' \<noteq> [] \<and> ''res'' \<notin> dom (files (fs ?w')) \<and> ''res'' \<in> dirs (fs ?w')"
    by (simp add: stub_main_ok stub_fs_def)
  have mk: "makedirs ''res'' True ?w' = (Inr (), ?w')"
    using inst [THEN conjunct2] f by blast
  have "files (fs ?w') ''res/model-lstm.aidax'' = Some ''keras''"
    and "files (fs ?w') ''res/model-lstm.nam'' = Some ''best''"
    and "files (fs ?w') ''trainer/Results/amp_LSTM-16-0/model_best.json'' = Some ''best''"
    by (simp_all add: stub_main_ok stub_fs_def)
  with ok d mk show ?thesis by blast
qed

end
